theory Spec2Isabelle
  imports Main "HOL-Library.Word" "HOL-Library.Signed_Division"
begin

section \<open>The peer-connection layer of the node (network/peer.go)\<close>

text \<open>
  The peer layer is embedded as functions over an explicit world: the \<open>network\<close> record
  (the fields of \<open>p.net\<close> that peer.go reads and writes) and a store of peer objects
  addressed by handle (a \<open>*peer\<close>). Every handler is one sequential call; log lines
  and metrics are left out, and so are the locks, except where a handler releases a
  lock that is not held. Go's \<open>int64\<close>, \<open>uint32\<close> and \<open>uint64\<close> are words,
  so \<open>+\<close> and \<open>-\<close> wrap as \<open>atomic.AddInt64\<close> and \<open>++\<close> do; \<open>int64\<close> values are
  compared with the signed order \<open><s\<close>.
\<close>

subsection \<open>Data\<close>

type_synonym byte = "8 word"
type_synonym int64 = "64 word"
type_synonym uint32 = "32 word"
type_synonym uint64 = "64 word"
type_synonym shortID = "byte list"
type_synonym handle = nat

text \<open>\<open>utils.IPDesc\<close>; \<open>zeroIP\<close> is the Go zero value \<open>utils.IPDesc{}\<close>.\<close>

record IPDesc =
  IP :: "byte list"
  Port :: "16 word"

definition zeroIP :: IPDesc where
  "zeroIP = \<lparr>IP = [], Port = 0\<rparr>"

text \<open>\<open>version.Version\<close>, as \<open>version.NewDefaultVersion(app, major, minor, patch)\<close> builds it.\<close>

datatype version = DefaultVersion string int int int

text \<open>
  A finite \<open>float64\<close> as \<open>mantissa * 2 ^ exponent\<close>. It is used for one value only:
  the result of \<open>p.net.maxClockDifference.Seconds()\<close>.
\<close>

record float64 =
  mantissa :: int
  exponent :: int

text \<open>The Network's hooks that the peer layer calls; each call is recorded in order.\<close>

datatype hook = HookConnected handle | HookDisconnected handle

text \<open>
  The parsed \<open>Version\<close> message: \<open>m_X msg\<close> is \<open>msg.Get(X)\<close> at the type the handler
  asserts.
\<close>

record versionMsg =
  m_NetworkID :: uint32
  m_NodeID :: uint32
  m_SessionID :: uint32
  m_MyTime :: uint64
  m_IP :: IPDesc
  m_VersionStr :: string

text \<open>
  The struct \<open>peer\<close>. \<open>closed\<close> also stands for the state of \<open>once\<close>, of
  \<open>tickerCloser\<close>, of \<open>conn\<close> and of the \<open>sender\<close> channel: \<open>close\<close> is the only
  function that touches any of them, it runs under \<open>once\<close>, and it sets them together.
  \<open>sender\<close> is the channel's buffer, oldest frame first, and \<open>senderCap\<close> its capacity.
  \<open>writer\<close> says where the writer task stands towards the channel: \<open>Parked\<close> while it
  is blocked in \<open>range p.sender\<close> on the empty buffer, \<open>Woken msg\<close> once \<open>Send\<close> has
  handed \<open>msg\<close> to the parked task and the task has not taken it up yet, \<open>Busy\<close> at any
  other time.
  \<open>remoteAddr\<close> is \<open>utils.ToIPDesc(p.conn.RemoteAddr().String())\<close>, \<open>None\<close> when that
  fails. The timestamps \<open>lastSent\<close> and \<open>lastReceived\<close> are left out.
\<close>

datatype writerState = Busy | Parked | Woken "byte list"

record peer =
  peer_id :: shortID
  gotVersion :: bool
  gotPeerList :: bool
  connected :: bool
  closed :: bool
  pendingBytes :: int64
  sender :: "byte list list"
  senderCap :: nat
  writer :: writerState
  ip :: IPDesc
  remoteAddr :: "IPDesc option"
  versionStruct :: "version option"
  versionStr :: "string option"
  incomingSessionID :: uint32

text \<open>
  The fields of \<open>network\<close> that peer.go uses. \<open>clockUnix\<close> is \<open>p.net.clock.Unix()\<close>,
  \<open>maxClockDifferenceSeconds\<close> is \<open>p.net.maxClockDifference.Seconds()\<close>. Go maps are
  partial maps; the sets of strings are \<open>map[string]struct{}\<close>.
\<close>

record network =
  networkID :: uint32
  nodeID :: uint32
  net_ip :: IPDesc
  net_version :: string
  clockUnix :: uint64
  maxClockDifferenceSeconds :: float64
  maxMessageSize :: int64
  maxNetworkPendingSendBytes :: int64
  networkPendingSendBytesToRateLimit :: int64
  net_pendingBytes :: int64
  beacons :: "shortID set"
  peers :: "shortID \<rightharpoonup> handle"
  nextSessionID :: "shortID \<rightharpoonup> uint32"
  disconnectedIPs :: "string set"
  myIPs :: "string set"
  hooks :: "hook list"

record world =
  net :: network
  peerAt :: "handle \<Rightarrow> peer"

definition updPeer :: "handle \<Rightarrow> (peer \<Rightarrow> peer) \<Rightarrow> world \<Rightarrow> world" where
  "updPeer h f w = w\<lparr>peerAt := (peerAt w)(h := f (peerAt w h))\<rparr>"

definition updNet :: "(network \<Rightarrow> network) \<Rightarrow> world \<Rightarrow> world" where
  "updNet f w = w\<lparr>net := f (net w)\<rparr>"

subsection \<open>Admission and backpressure\<close>

text \<open>\<open>int64(len(xs))\<close>.\<close>

definition len64 :: "'a list \<Rightarrow> int64" where
  "len64 xs = of_nat (length xs)"

text \<open>Go's \<open>/\<close> on \<open>int64\<close>: the quotient is truncated towards zero.\<close>

definition int64_div :: "int64 \<Rightarrow> int64 \<Rightarrow> int64" where
  "int64_div a b = word_of_int (sint a sdiv sint b)"

definition dropMessagePeer :: "network \<Rightarrow> peer \<Rightarrow> bool" where
  "dropMessagePeer n p \<longleftrightarrow> maxMessageSize n <s pendingBytes p"

definition dropMessage :: "network \<Rightarrow> peer \<Rightarrow> int64 \<Rightarrow> int64 \<Rightarrow> bool" where
  "dropMessage n p connPendingLen networkPendingLen \<longleftrightarrow>
     networkPendingSendBytesToRateLimit n <s networkPendingLen \<and>
     dropMessagePeer n p \<and>
     (maxNetworkPendingSendBytes n <s networkPendingLen \<or>
      int64_div (maxNetworkPendingSendBytes n) 20 <s connPendingLen)"

text \<open>
  \<open>Send\<close>, on the bytes of the message (\<open>msg.Bytes()\<close>); it returns its result and
  the state it leaves. The \<open>select\<close> with a \<open>default\<close> branch sends when the writer is
  parked on the channel, which hands the frame to the writer, or when the buffer has
  room, which appends the frame to the buffer; otherwise it drops the message. A
  receiver is parked on a channel only while the buffer is empty.
\<close>

definition Send :: "handle \<Rightarrow> byte list \<Rightarrow> world \<Rightarrow> bool \<times> world" where
  "Send h msgBytes w =
     (if closed (peerAt w h) then (False, w)
      else if dropMessagePeer (net w) (peerAt w h) then (False, w)
      else
        let msgBytesLen = len64 msgBytes;
            newPendingBytes = net_pendingBytes (net w) + msgBytesLen;
            w1 = updNet (\<lambda>n. n\<lparr>net_pendingBytes := newPendingBytes\<rparr>) w;
            newConnPendingBytes = pendingBytes (peerAt w1 h) + msgBytesLen
        in if dropMessage (net w1) (peerAt w1 h) newConnPendingBytes newPendingBytes
           then (False, updNet (\<lambda>n. n\<lparr>net_pendingBytes := net_pendingBytes n - msgBytesLen\<rparr>) w1)
           else if writer (peerAt w1 h) = Parked \<and> sender (peerAt w1 h) = []
           then (True, updPeer h (\<lambda>p. p\<lparr>writer := Woken msgBytes,
                                          pendingBytes := pendingBytes p + msgBytesLen\<rparr>) w1)
           else if length (sender (peerAt w1 h)) < senderCap (peerAt w1 h)
           then (True, updPeer h (\<lambda>p. p\<lparr>sender := sender p @ [msgBytes],
                                          pendingBytes := pendingBytes p + msgBytesLen\<rparr>) w1)
           else (False, updNet (\<lambda>n. n\<lparr>net_pendingBytes := net_pendingBytes n - msgBytesLen\<rparr>) w1))"

subsection \<open>Closing a peer and discarding its address\<close>

text \<open>
  The functions of this repository that peer.go calls and that are not among the sources,
  and the library calls whose results the model takes as given: \<open>IsZero\<close> and
  \<open>ipString\<close> are \<open>utils.IPDesc.IsZero\<close> and \<open>utils.IPDesc.String\<close>, \<open>ipEqual\<close> is
  \<open>net.IP.Equal\<close>, \<open>parseVersion\<close> is \<open>p.net.parser.Parse\<close> (\<open>None\<close> for an error),
  \<open>Compatible v\<close> says that \<open>p.net.version.Compatible(v)\<close> is nil, \<open>versionString\<close> is
  \<open>version.Version.String\<close>, \<open>validatorIPs\<close> is \<open>p.net.validatorIPs()\<close> and
  \<open>buildPeerList\<close> gives the bytes of the message that \<open>p.net.b.PeerList\<close> builds
  (\<open>None\<close> for an error).
\<close>

record externals =
  IsZero :: "IPDesc \<Rightarrow> bool"
  ipString :: "IPDesc \<Rightarrow> string"
  ipEqual :: "byte list \<Rightarrow> byte list \<Rightarrow> bool"
  parseVersion :: "string \<Rightarrow> version option"
  Compatible :: "version \<Rightarrow> bool"
  versionString :: "version \<Rightarrow> string"
  validatorIPs :: "world \<Rightarrow> IPDesc list"
  buildPeerList :: "IPDesc list \<Rightarrow> byte list option"

text \<open>
  Modelled from the spec: the Network's \<open>connected\<close> and \<open>disconnected\<close> hooks
  (network.go is not among the sources). The spec has the peer layer notify them; a call
  appends to \<open>hooks\<close> and changes nothing else of the state modelled here.
\<close>

definition net_connected :: "handle \<Rightarrow> world \<Rightarrow> world" where
  "net_connected h w = updNet (\<lambda>n. n\<lparr>hooks := hooks n @ [HookConnected h]\<rparr>) w"

definition net_disconnected :: "handle \<Rightarrow> world \<Rightarrow> world" where
  "net_disconnected h w = updNet (\<lambda>n. n\<lparr>hooks := hooks n @ [HookDisconnected h]\<rparr>) w"

definition close :: "handle \<Rightarrow> world \<Rightarrow> world" where
  "close h w = net_disconnected h (updPeer h (\<lambda>p. p\<lparr>closed := True\<rparr>) w)"

text \<open>\<open>p.once.Do(p.close)\<close>: \<open>close\<close> runs on the first call only.\<close>

definition Close :: "handle \<Rightarrow> world \<Rightarrow> world" where
  "Close h w = (if closed (peerAt w h) then w else close h w)"

definition setIP :: "handle \<Rightarrow> IPDesc \<Rightarrow> world \<Rightarrow> world" where
  "setIP h a w = updPeer h (\<lambda>p. p\<lparr>ip := a\<rparr>) w"

definition discardIP :: "externals \<Rightarrow> handle \<Rightarrow> world \<Rightarrow> world" where
  "discardIP ext h w =
     (let a = ip (peerAt w h)
      in Close h
           (if \<not> IsZero ext a
            then updNet (\<lambda>n. n\<lparr>disconnectedIPs := disconnectedIPs n - {ipString ext a}\<rparr>)
                   (setIP h zeroIP w)
            else w))"

definition discardMyIP :: "externals \<Rightarrow> handle \<Rightarrow> world \<Rightarrow> world" where
  "discardMyIP ext h w =
     (let a = ip (peerAt w h)
      in Close h
           (if \<not> IsZero ext a
            then updNet (\<lambda>n. n\<lparr>myIPs := insert (ipString ext a) (myIPs n),
                                 disconnectedIPs := disconnectedIPs n - {ipString ext a}\<rparr>)
                   (setIP h zeroIP w)
            else w))"

subsection \<open>The handshake\<close>

text \<open>\<open>p.net.nextSessionID[key]\<close>: a missing key reads as 0.\<close>

definition sessionOf :: "network \<Rightarrow> shortID \<Rightarrow> uint32" where
  "sessionOf n k = (case nextSessionID n k of None \<Rightarrow> 0 | Some s \<Rightarrow> s)"

text \<open>
  \<open>tryMarkConnected\<close>, called with \<open>stateLock\<close> held as its comment requires; it
  releases the lock while it closes the connection registered before and takes it
  again.
\<close>

definition tryMarkConnected :: "handle \<Rightarrow> world \<Rightarrow> world" where
  "tryMarkConnected h w =
     (if \<not> connected (peerAt w h) \<and> gotVersion (peerAt w h) \<and> gotPeerList (peerAt w h)
      then
        if closed (peerAt w h) then w
        else
          let key = peer_id (peerAt w h);
              w1 = (case peers (net w) key of
                      Some oldConnection \<Rightarrow> Close oldConnection w
                    | None \<Rightarrow> w);
              w2 = updPeer h (\<lambda>p. p\<lparr>connected := True\<rparr>) w1;
              incoming = incomingSessionID (peerAt w2 h);
              w3 = (if sessionOf (net w2) key < incoming
                    then updNet (\<lambda>n. n\<lparr>nextSessionID := (nextSessionID n)(key \<mapsto> incoming)\<rparr>) w2
                    else w2);
              w4 = updNet (\<lambda>n. n\<lparr>nextSessionID :=
                                    (nextSessionID n)(peer_id (peerAt w3 h) \<mapsto>
                                       sessionOf n (peer_id (peerAt w3 h)) + 1)\<rparr>) w3;
              w5 = updNet (\<lambda>n. n\<lparr>peers := (peers n)(key \<mapsto> h)\<rparr>) w4
          in net_connected h w5
      else w)"

definition PeerList :: "externals \<Rightarrow> handle \<Rightarrow> IPDesc list \<Rightarrow> world \<Rightarrow> world" where
  "PeerList ext h ips w =
     (case buildPeerList ext ips of
        None \<Rightarrow> w
      | Some msgBytes \<Rightarrow> snd (Send h msgBytes w))"

definition SendPeerList :: "externals \<Rightarrow> handle \<Rightarrow> world \<Rightarrow> world" where
  "SendPeerList ext h w = PeerList ext h (validatorIPs ext w) w"

text \<open>
  The clock check compares two \<open>float64\<close> values. \<open>float64_of_nat n\<close> is the value of
  the conversion \<open>float64(n)\<close> of a non-negative integer: \<open>n\<close> rounded to 53 significant
  bits, ties to even; the result is an integer again. The difference of two such values
  is rounded the same way, and \<open>math.Abs\<close> is exact.
\<close>

fun bitlen :: "nat \<Rightarrow> nat" where
  "bitlen n = (if n = 0 then 0 else Suc (bitlen (n div 2)))"

definition float64_of_nat :: "nat \<Rightarrow> nat" where
  "float64_of_nat n =
     (if n < 2 ^ 53 then n
      else
        let e = bitlen n - 53;
            q = n div 2 ^ e;
            r = n mod 2 ^ e;
            q' = (if 2 ^ e < 2 * r \<or> (2 * r = 2 ^ e \<and> odd q) then q + 1 else q)
        in q' * 2 ^ e)"

definition absTimeDiff :: "uint64 \<Rightarrow> uint64 \<Rightarrow> nat" where
  "absTimeDiff peerTime myTime =
     float64_of_nat
       (nat \<bar>int (float64_of_nat (unat peerTime)) - int (float64_of_nat (unat myTime))\<bar>)"

text \<open>\<open>x > t\<close> for an integer-valued \<open>x\<close> and a finite \<open>float64\<close> \<open>t\<close>.\<close>

definition gt_float64 :: "nat \<Rightarrow> float64 \<Rightarrow> bool" where
  "gt_float64 x t \<longleftrightarrow>
     (if 0 \<le> exponent t then mantissa t * 2 ^ nat (exponent t) < int x
      else mantissa t < int x * 2 ^ nat (- exponent t))"

definition clockOutOfSync :: "network \<Rightarrow> versionMsg \<Rightarrow> bool" where
  "clockOutOfSync n msg \<longleftrightarrow>
     gt_float64 (absTimeDiff (m_MyTime msg) (clockUnix n)) (maxClockDifferenceSeconds n)"

text \<open>
  A fatal error of the Go runtime: \<open>Unlock\<close> of a \<open>sync.RWMutex\<close> that is not locked.
\<close>

datatype fatal = UnlockOfUnlockedMutex

text \<open>
  \<open>tryMarkConnected\<close> assumes that \<open>stateLock\<close> is held. Where it finds a connection
  registered for the peer it releases the lock around closing that connection
  (\<open>p.net.stateLock.Unlock()\<close>, peer.go:973); its other paths do not touch the lock.
  \<open>reachesUnlock\<close> says that a call takes that path.
\<close>

definition reachesUnlock :: "handle \<Rightarrow> world \<Rightarrow> bool" where
  "reachesUnlock h w \<longleftrightarrow>
     \<not> connected (peerAt w h) \<and> gotVersion (peerAt w h) \<and> gotPeerList (peerAt w h) \<and>
     \<not> closed (peerAt w h) \<and> peers (net w) (peer_id (peerAt w h)) \<noteq> None"

text \<open>A call of \<open>tryMarkConnected\<close> while \<open>stateLock\<close> is not held.\<close>

definition tryMarkConnected_unlocked :: "handle \<Rightarrow> world \<Rightarrow> fatal + world" where
  "tryMarkConnected_unlocked h w =
     (if reachesUnlock h w then Inl UnlockOfUnlockedMutex else Inr (tryMarkConnected h w))"

text \<open>
  The handler of an inbound \<open>Version\<close>; \<open>Inl\<close> is a fatal error, \<open>Inr\<close> the state in
  which the handler returns. The handler takes \<open>stateLock\<close> to read \<open>nextSessionID\<close>
  and \<open>peers\<close> and releases it (peer.go:724-727), so its call of \<open>tryMarkConnected\<close>
  at the end runs without the lock. The two sides of the merge conflict in the source
  only write to the log.
\<close>

definition version :: "externals \<Rightarrow> handle \<Rightarrow> versionMsg \<Rightarrow> world \<Rightarrow> fatal + world" where
  "version ext h msg w =
     (if gotVersion (peerAt w h) then Inr w
      else if m_NetworkID msg \<noteq> networkID (net w) then Inr (discardIP ext h w)
      else if m_NodeID msg = nodeID (net w) then Inr (discardMyIP ext h w)
      else if clockOutOfSync (net w) msg then Inr (discardIP ext h w)
      else
        case parseVersion ext (m_VersionStr msg) of
          None \<Rightarrow> Inr (discardIP ext h w)
        | Some peerVersion \<Rightarrow>
            if \<not> Compatible ext peerVersion \<and> peer_id (peerAt w h) \<notin> beacons (net w)
            then Inr (discardIP ext h w)
            else
              let peerKey = peer_id (peerAt w h);
                  sessionID = m_SessionID msg;
                  nextSID = sessionOf (net w) peerKey;
                  isConnected = (peers (net w) peerKey \<noteq> None)
              in if isConnected \<and> sessionID \<noteq> 0 \<and> sessionID < nextSID
                 then Inr (discardIP ext h w)
                 else
                   let w1 = (if IsZero ext (ip (peerAt w h))
                             then (case remoteAddr (peerAt w h) of
                                     Some localPeerIP \<Rightarrow>
                                       if ipEqual ext (IP (m_IP msg)) (IP localPeerIP)
                                       then setIP h (m_IP msg) w
                                       else w
                                   | None \<Rightarrow> w)
                             else w);
                       w2 = SendPeerList ext h w1;
                       w3 = updPeer h (\<lambda>p. p\<lparr>versionStruct := Some peerVersion,
                                               versionStr := Some (versionString ext peerVersion),
                                               gotVersion := True,
                                               incomingSessionID := sessionID\<rparr>) w2
                   in tryMarkConnected_unlocked h w3)"

subsection \<open>The writer task\<close>

text \<open>
  The frame that the next receive on the channel yields, and the peer without it: the
  frame handed over by \<open>Send\<close> if there is one, the oldest frame of the buffer otherwise.
\<close>

definition receive :: "peer \<Rightarrow> (byte list \<times> peer) option" where
  "receive p =
     (case writer p of
        Woken msg \<Rightarrow> Some (msg, p\<lparr>writer := Busy\<rparr>)
      | _ \<Rightarrow>
          (case sender p of
             [] \<Rightarrow> None
           | msg # rest \<Rightarrow> Some (msg, p\<lparr>sender := rest, writer := Busy\<rparr>)))"

text \<open>The number of frames that the writer has still to receive.\<close>

definition toReceive :: "peer \<Rightarrow> nat" where
  "toReceive p = length (sender p) + (case writer p of Woken msg \<Rightarrow> 1 | _ \<Rightarrow> 0)"

text \<open>
  \<open>WriteMessages\<close> ranges over the \<open>sender\<close> channel: it receives a frame, subtracts
  its length from both counters and hands it to \<open>sendRaw\<close>. \<open>writeOK k\<close> says whether
  the \<open>k\<close>-th call of \<open>sendRaw\<close> from now returns without an error. When there is no
  frame to receive, the range ends if the channel is closed, and the task parks on the
  channel otherwise. Every return runs the deferred \<open>p.Close()\<close>.
\<close>

datatype task = Waiting | Returned

function WriteMessages :: "handle \<Rightarrow> (nat \<Rightarrow> bool) \<Rightarrow> nat \<Rightarrow> world \<Rightarrow> task \<times> world" where
  "WriteMessages h writeOK k w =
     (case receive (peerAt w h) of
        None \<Rightarrow>
          if closed (peerAt w h) then (Returned, Close h w)
          else (Waiting, updPeer h (\<lambda>p. p\<lparr>writer := Parked\<rparr>) w)
      | Some (msg, p') \<Rightarrow>
          let w1 = updPeer h (\<lambda>p. p'\<lparr>pendingBytes := pendingBytes p' - len64 msg\<rparr>) w;
              w2 = updNet (\<lambda>n. n\<lparr>net_pendingBytes := net_pendingBytes n - len64 msg\<rparr>) w1
          in if writeOK k then WriteMessages h writeOK (Suc k) w2
             else (Returned, Close h w2))"
  by pat_completeness auto
termination
  by (relation "measure (\<lambda>(h, writeOK, k, w). toReceive (peerAt w h))")
     (auto simp: updPeer_def updNet_def receive_def toReceive_def
           split: writerState.splits list.splits)

declare WriteMessages.simps [simp del]

subsection \<open>The reader task\<close>

text \<open>The 4-byte big-endian length prefix.\<close>

definition be32 :: "byte list \<Rightarrow> uint32" where
  "be32 bs = of_nat (foldl (\<lambda>acc b. acc * 256 + unat b) 0 bs)"

text \<open>
  Modelled from the spec: \<open>wrappers.Packer.UnpackBytes\<close> (utils/wrappers is not among
  the sources). A frame is a 4-byte big-endian unsigned length followed by that many
  bytes of payload; unpacking fails while the buffer does not hold a full frame. The
  result is the payload and the bytes after the frame (\<open>Bytes[Offset:]\<close>).
\<close>

definition UnpackBytes :: "byte list \<Rightarrow> (byte list \<times> byte list) option" where
  "UnpackBytes bytes =
     (if length bytes < 4 then None
      else
        let size = unat (be32 (take 4 bytes))
        in if length bytes - 4 < size then None
           else Some (take size (drop 4 bytes), drop (4 + size) bytes))"

text \<open>
  \<open>ReadMessages\<close>, on the chunks that the successive calls of \<open>p.conn.Read\<close> return;
  the read after the last chunk returns an error. \<open>parse\<close> is \<open>p.net.b.Parse\<close>. The
  result says why the task returned, which frames it gave to the parser, which messages
  it gave to \<open>p.handle\<close>, and how many reads it used. Every return runs the deferred
  \<open>p.Close()\<close>.
\<close>

datatype readExit = DeadlineError | ReadError | TooManyBytes | MessageTooLong | ParseError

record 'm readResult =
  exit :: readExit
  parsed :: "byte list list"
  handled :: "'m list"
  reads :: nat

fun readLoop ::
  "int64 \<Rightarrow> (byte list \<Rightarrow> 'm option) \<Rightarrow> byte list \<Rightarrow> byte list list \<Rightarrow> 'm readResult" where
  "readLoop maxSize parse pending [] =
     \<lparr>exit = ReadError, parsed = [], handled = [], reads = 0\<rparr>"
| "readLoop maxSize parse pending (chunk # rest) =
     (let bytes = pending @ chunk
      in case UnpackBytes bytes of
           None \<Rightarrow>
             if maxSize + 4 <s len64 bytes
             then \<lparr>exit = TooManyBytes, parsed = [], handled = [], reads = 1\<rparr>
             else (let r = readLoop maxSize parse bytes rest in r\<lparr>reads := Suc (reads r)\<rparr>)
         | Some (msgBytes, remaining) \<Rightarrow>
             if maxSize <s len64 msgBytes
             then \<lparr>exit = MessageTooLong, parsed = [], handled = [], reads = 1\<rparr>
             else
               (case parse msgBytes of
                  None \<Rightarrow> \<lparr>exit = ParseError, parsed = [msgBytes], handled = [], reads = 1\<rparr>
                | Some msg \<Rightarrow>
                    (let r = readLoop maxSize parse remaining rest
                     in r\<lparr>parsed := msgBytes # parsed r, handled := msg # handled r,
                          reads := Suc (reads r)\<rparr>)))"


subsection \<open>Outbound Version messages\<close>

text \<open>The arguments of a call of the Builder.\<close>

datatype arg = U32 uint32 | U64 uint64 | IPArg IPDesc | Str string

text \<open>
  Modelled from the spec: \<open>Builder.Version\<close> (builder.go is not among the sources).
  The \<open>Version\<close> op carries NetworkID, NodeID, SessionID, MyTime, IP and VersionStr;
  builder_test.go passes them as \<open>networkID, nodeID, sessionID, myTime, ip, myVersion\<close>.
  Any other argument list is not a call of \<open>Builder.Version\<close>.
\<close>

fun b_Version :: "arg list \<Rightarrow> versionMsg option" where
  "b_Version [U32 networkID', U32 nodeID', U32 sessionID, U64 myTime, IPArg ip', Str myVersion] =
     Some \<lparr>m_NetworkID = networkID', m_NodeID = nodeID', m_SessionID = sessionID,
           m_MyTime = myTime, m_IP = ip', m_VersionStr = myVersion\<rparr>"
| "b_Version _ = None"

text \<open>The arguments that \<open>peer.Version\<close> passes to \<open>p.net.b.Version\<close>.\<close>

definition Version_args :: "network \<Rightarrow> peer \<Rightarrow> arg list" where
  "Version_args n p =
     [U32 (networkID n), U32 (nodeID n), U32 (sessionOf n (peer_id p)),
      U64 (clockUnix n), IPArg (net_ip n), Str (net_version n)]"

text \<open>The arguments that \<open>peer.verionAck\<close> passes to \<open>p.net.b.Version\<close>.\<close>

definition verionAck_args :: "network \<Rightarrow> arg list" where
  "verionAck_args n =
     [U32 (networkID n), U32 (nodeID n),
      U64 (clockUnix n), IPArg (net_ip n), Str (net_version n)]"

subsection \<open>Example states\<close>

text \<open>
  A node with network id 1 and node id 7 at unix time 1600000000, tolerating 60 seconds
  of clock difference. The peer with id \<open>[1]\<close> is registered under handle 0 and
  \<open>nextSessionID\<close> for it is 5; every other handle is a new connection of the same peer
  that has received the peer list and no \<open>Version\<close> yet.
\<close>

definition exExt :: externals where
  "exExt = \<lparr>IsZero = (\<lambda>a. IP a = []),
            ipString = (\<lambda>a. replicate (length (IP a)) CHR ''x''),
            ipEqual = (=),
            parseVersion = (\<lambda>s. if s = ''avalanche/1.0.4''
                                 then Some (DefaultVersion ''avalanche'' 1 0 4) else None),
            Compatible = (\<lambda>v. True),
            versionString = (\<lambda>v. ''avalanche/1.0.4''),
            validatorIPs = (\<lambda>w. []),
            buildPeerList = (\<lambda>ips. Some [0, 0, 0, 0])\<rparr>"

definition freshPeer :: peer where
  "freshPeer = \<lparr>peer_id = [1], gotVersion = False, gotPeerList = False, connected = False,
                closed = False, pendingBytes = 0, sender = [], senderCap = 1024, writer = Busy,
                ip = zeroIP, remoteAddr = None, versionStruct = None, versionStr = None,
                incomingSessionID = 0\<rparr>"

definition exNet :: network where
  "exNet = \<lparr>networkID = 1, nodeID = 7, net_ip = \<lparr>IP = [10, 0, 0, 1], Port = 9651\<rparr>,
            net_version = ''avalanche/1.0.4'', clockUnix = 1600000000,
            maxClockDifferenceSeconds = \<lparr>mantissa = 60, exponent = 0\<rparr>,
            maxMessageSize = 2097152, maxNetworkPendingSendBytes = 1048576,
            networkPendingSendBytesToRateLimit = 262144, net_pendingBytes = 0,
            beacons = {}, peers = [[1] \<mapsto> 0], nextSessionID = [[1] \<mapsto> 5],
            disconnectedIPs = {}, myIPs = {}, hooks = []\<rparr>"

definition exWorld :: world where
  "exWorld = \<lparr>net = exNet,
              peerAt = (\<lambda>h. if h = 0
                            then freshPeer\<lparr>gotVersion := True, gotPeerList := True, connected := True\<rparr>
                            else freshPeer\<lparr>gotPeerList := True\<rparr>)\<rparr>"

definition exVersion :: "uint32 \<Rightarrow> versionMsg" where
  "exVersion s = \<lparr>m_NetworkID = 1, m_NodeID = 8, m_SessionID = s, m_MyTime = 1600000000,
                  m_IP = \<lparr>IP = [10, 0, 0, 2], Port = 9651\<rparr>, m_VersionStr = ''avalanche/1.0.4''\<rparr>"

text \<open>The new connection after a \<open>Version\<close> with session id 7.\<close>

definition exWorld7 :: world where
  "exWorld7 = updPeer 1 (\<lambda>p. p\<lparr>gotVersion := True, incomingSessionID := 7\<rparr>) exWorld"

text \<open>The new connection after \<open>Send\<close> has accepted a frame of 3 bytes and one of 2 bytes.\<close>

definition exQueued :: world where
  "exQueued = snd (Send 1 [2, 2] (snd (Send 1 [1, 1, 1] exWorld)))"

section \<open>The transaction layer (vms/avm/tx.go)\<close>

text \<open>
  Go \<open>error\<close> values: the constants of the package, an error wrapped by \<open>fmt.Errorf\<close>
  with \<open>%w\<close>, and any other error by its text.
\<close>

datatype error =
    errNilTx
  | errInitialStatesNotSortedUnique
  | errWrongNumberOfCredentials
  | Wrapped string error
  | OtherError string

text \<open>
  The fields of \<open>Tx\<close> that \<open>SyntacticVerify\<close> uses. \<open>UnsignedTx\<close> is an interface value,
  \<open>None\<close> when nil; \<open>validity\<close> is an \<open>error\<close>, \<open>None\<close> when nil.
\<close>

record ('u, 'c) Tx =
  UnsignedTx :: "'u option"
  Creds :: "'c list"
  verifiedTx :: bool
  validity :: "error option"

text \<open>The first error that \<open>cred.Verify()\<close> returns over \<open>t.Creds\<close>, in order.\<close>

fun firstCredError :: "('c \<Rightarrow> error option) \<Rightarrow> 'c list \<Rightarrow> error option" where
  "firstCredError credVerify [] = None"
| "firstCredError credVerify (cred # creds) =
     (case credVerify cred of
        Some err \<Rightarrow> Some err
      | None \<Rightarrow> firstCredError credVerify creds)"

text \<open>
  \<open>Tx.SyntacticVerify\<close> on a \<open>*Tx\<close> (\<open>None\<close> when nil); it returns the error and the
  transaction as the call leaves it. \<open>unsignedVerify\<close> is the embedded
  \<open>UnsignedTx.SyntacticVerify\<close> with the arguments taken from \<open>t.vm\<close>, \<open>credVerify\<close> is
  \<open>cred.Verify\<close> and \<open>numCredentials\<close> is \<open>UnsignedTx.NumCredentials\<close>.
\<close>

definition SyntacticVerify ::
  "('u \<Rightarrow> error option) \<Rightarrow> ('c \<Rightarrow> error option) \<Rightarrow> ('u \<Rightarrow> int) \<Rightarrow>
   ('u, 'c) Tx option \<Rightarrow> error option \<times> ('u, 'c) Tx option" where
  "SyntacticVerify unsignedVerify credVerify numCredentials tp =
     (case tp of
        None \<Rightarrow> (Some errNilTx, None)
      | Some t \<Rightarrow>
          (case UnsignedTx t of
             None \<Rightarrow> (Some errNilTx, Some t)
           | Some u \<Rightarrow>
               if verifiedTx t then (validity t, Some t)
               else
                 let t1 = t\<lparr>verifiedTx := True\<rparr>
                 in (case unsignedVerify u of
                       Some err \<Rightarrow>
                         (Some errInitialStatesNotSortedUnique,
                          Some (t1\<lparr>validity := Some errInitialStatesNotSortedUnique\<rparr>))
                     | None \<Rightarrow>
                         (case firstCredError credVerify (Creds t1) of
                            Some err \<Rightarrow>
                              (let err' = Wrapped ''credential failed verification: '' err
                               in (Some err', Some (t1\<lparr>validity := Some err'\<rparr>)))
                          | None \<Rightarrow>
                              if numCredentials u \<noteq> int (length (Creds t1))
                              then (Some errWrongNumberOfCredentials,
                                    Some (t1\<lparr>validity := Some errWrongNumberOfCredentials\<rparr>))
                              else (None, Some t1)))))"

text \<open>A transaction that has not been verified yet.\<close>

definition exTx :: "(unit, unit) Tx" where
  "exTx = \<lparr>UnsignedTx = Some (), Creds = [], verifiedTx = False, validity = None\<rparr>"

section \<open>Properties\<close>

lemma peerAt_updNet [simp]: "peerAt (updNet f w) = peerAt w"
  by (simp add: updNet_def)

lemma net_updNet [simp]: "net (updNet f w) = f (net w)"
  by (simp add: updNet_def)

lemma net_updPeer [simp]: "net (updPeer h f w) = net w"
  by (simp add: updPeer_def)

lemma peerAt_updPeer [simp]: "peerAt (updPeer h f w) = (peerAt w)(h := f (peerAt w h))"
  by (simp add: updPeer_def)

lemma dropMessage_config [simp]:
  "dropMessage (n\<lparr>net_pendingBytes := x\<rparr>) p c k = dropMessage n p c k"
  by (simp add: dropMessage_def dropMessagePeer_def)

lemma Send_fst:
  "fst (Send h msgBytes w) \<longleftrightarrow>
     \<not> closed (peerAt w h) \<and> \<not> dropMessagePeer (net w) (peerAt w h) \<and>
     (writer (peerAt w h) = Parked \<and> sender (peerAt w h) = [] \<or>
      length (sender (peerAt w h)) < senderCap (peerAt w h))"
  by (auto simp: Send_def Let_def dropMessage_def dropMessagePeer_def)

text \<open>On a channel without a buffer, \<open>Send\<close> passes a frame to the parked writer.\<close>

lemma Send_unbuffered_handoff:
  assumes "senderCap (peerAt w h) = 0" and "writer (peerAt w h) = Parked"
    and "sender (peerAt w h) = []" and "\<not> closed (peerAt w h)"
    and "\<not> dropMessagePeer (net w) (peerAt w h)"
  shows "fst (Send h msgBytes w)"
  using assms by (simp add: Send_fst)

text \<open>
  C1. On a sender queue with a buffer (\<open>0 < senderCap\<close>), \<open>Send\<close> returns true exactly
  when the peer is not closed, \<open>dropMessagePeer\<close> is false (the peer's \<open>pendingBytes\<close>
  does not exceed \<open>maxMessageSize\<close>), the combined rule \<open>dropMessage\<close> is false on the
  two counters with the message's length added, and the sender queue has room.
  \<open>dropMessage\<close> holds exactly when the network's pending bytes exceed
  \<open>networkPendingSendBytesToRateLimit\<close>, \<open>dropMessagePeer\<close> holds, and the network's
  pending bytes exceed \<open>maxNetworkPendingSendBytes\<close> or the connection's exceed a
  twentieth of it.
\<close>

theorem Send_true_iff:
  assumes "0 < senderCap (peerAt w h)"
  shows "(fst (Send h msgBytes w) \<longleftrightarrow>
            \<not> closed (peerAt w h) \<and>
            \<not> dropMessagePeer (net w) (peerAt w h) \<and>
            \<not> dropMessage (net w) (peerAt w h)
                 (pendingBytes (peerAt w h) + len64 msgBytes)
                 (net_pendingBytes (net w) + len64 msgBytes) \<and>
            length (sender (peerAt w h)) < senderCap (peerAt w h)) \<and>
         (dropMessagePeer n p \<longleftrightarrow> maxMessageSize n <s pendingBytes p) \<and>
         (dropMessage n p connPending netPending \<longleftrightarrow>
            networkPendingSendBytesToRateLimit n <s netPending \<and>
            dropMessagePeer n p \<and>
            (maxNetworkPendingSendBytes n <s netPending \<or>
             int64_div (maxNetworkPendingSendBytes n) 20 <s connPending))"
proof (intro conjI)
  show "fst (Send h msgBytes w) \<longleftrightarrow>
          \<not> closed (peerAt w h) \<and>
          \<not> dropMessagePeer (net w) (peerAt w h) \<and>
          \<not> dropMessage (net w) (peerAt w h)
               (pendingBytes (peerAt w h) + len64 msgBytes)
               (net_pendingBytes (net w) + len64 msgBytes) \<and>
          length (sender (peerAt w h)) < senderCap (peerAt w h)"
    using assms by (auto simp: Send_def Let_def)
qed (simp_all only: dropMessage_def dropMessagePeer_def)

lemmas ex_defs = exExt_def freshPeer_def exNet_def exWorld_def exVersion_def zeroIP_def

lemma ex_clock: "\<not> clockOutOfSync (net exWorld) (exVersion s)"
  by (simp add: ex_defs clockOutOfSync_def absTimeDiff_def float64_of_nat_def gt_float64_def)

theorem Send_true_iff_witness:
  "0 < senderCap (peerAt exWorld 1) \<and> fst (Send 1 [1, 1, 1] exWorld)"
proof -
  have h: "0 < senderCap (peerAt exWorld 1)"
    by (simp add: ex_defs)
  have v: "\<not> closed (peerAt exWorld 1)" "pendingBytes (peerAt exWorld 1) = 0"
    "sender (peerAt exWorld 1) = []" "maxMessageSize (net exWorld) = 2097152"
    by (simp_all add: ex_defs)
  have d: "\<not> dropMessagePeer (net exWorld) (peerAt exWorld 1)"
    by (simp add: dropMessagePeer_def v word_sless_alt del: One_nat_def)
  then have "\<not> dropMessage (net exWorld) (peerAt exWorld 1) c k" for c k
    by (simp add: dropMessage_def)
  with h d v(1,3) show ?thesis
    using Send_true_iff [OF h, THEN conjunct1, of "[1, 1, 1]"] by simp
qed

lemma Send_frame [simp]:
  "closed (peerAt (snd (Send h m w)) h') = closed (peerAt w h')"
  "gotVersion (peerAt (snd (Send h m w)) h') = gotVersion (peerAt w h')"
  "gotPeerList (peerAt (snd (Send h m w)) h') = gotPeerList (peerAt w h')"
  "connected (peerAt (snd (Send h m w)) h') = connected (peerAt w h')"
  "peer_id (peerAt (snd (Send h m w)) h') = peer_id (peerAt w h')"
  "ip (peerAt (snd (Send h m w)) h') = ip (peerAt w h')"
  "peers (net (snd (Send h m w))) = peers (net w)"
  "nextSessionID (net (snd (Send h m w))) = nextSessionID (net w)"
  "hooks (net (snd (Send h m w))) = hooks (net w)"
  by (simp_all add: Send_def Let_def)

lemma SendPeerList_frame [simp]:
  "closed (peerAt (SendPeerList ext h w) h') = closed (peerAt w h')"
  "gotVersion (peerAt (SendPeerList ext h w) h') = gotVersion (peerAt w h')"
  "gotPeerList (peerAt (SendPeerList ext h w) h') = gotPeerList (peerAt w h')"
  "connected (peerAt (SendPeerList ext h w) h') = connected (peerAt w h')"
  "peer_id (peerAt (SendPeerList ext h w) h') = peer_id (peerAt w h')"
  "peers (net (SendPeerList ext h w)) = peers (net w)"
  "nextSessionID (net (SendPeerList ext h w)) = nextSessionID (net w)"
  by (simp_all add: SendPeerList_def PeerList_def split: option.splits)

lemma peerAt_Close:
  "peerAt (Close old w) h =
     (if h = old \<and> \<not> closed (peerAt w old) then (peerAt w h)\<lparr>closed := True\<rparr> else peerAt w h)"
  by (simp add: Close_def close_def net_disconnected_def)

lemma net_Close:
  "net (Close old w) =
     (if closed (peerAt w old) then net w
      else (net w)\<lparr>hooks := hooks (net w) @ [HookDisconnected old]\<rparr>)"
  by (simp add: Close_def close_def net_disconnected_def)

lemma discardIP_facts:
  "closed (peerAt (discardIP ext h w) h)"
  "gotVersion (peerAt (discardIP ext h w) h') = gotVersion (peerAt w h')"
  "peers (net (discardIP ext h w)) = peers (net w)"
  "myIPs (net (discardIP ext h w)) = myIPs (net w)"
  by (simp_all add: discardIP_def Let_def peerAt_Close net_Close setIP_def)


lemma tryMarkConnected_effect:
  assumes "\<not> connected (peerAt w h)" and "gotVersion (peerAt w h)"
    and "gotPeerList (peerAt w h)" and "\<not> closed (peerAt w h)"
  shows "connected (peerAt (tryMarkConnected h w) h)"
    and "nextSessionID (net (tryMarkConnected h w)) (peer_id (peerAt w h)) =
           Some (max (sessionOf (net w) (peer_id (peerAt w h))) (incomingSessionID (peerAt w h)) + 1)"
    and "peers (net (tryMarkConnected h w)) (peer_id (peerAt w h)) = Some h"
    and "peers (net w) (peer_id (peerAt w h)) = Some old \<Longrightarrow>
            closed (peerAt (tryMarkConnected h w) old)"
    and "hooks (net (tryMarkConnected h w)) =
           hooks (net w) @
           (case peers (net w) (peer_id (peerAt w h)) of
              Some old \<Rightarrow> if closed (peerAt w old) then [] else [HookDisconnected old]
            | None \<Rightarrow> []) @
           [HookConnected h]"
  using assms
  by (auto simp: tryMarkConnected_def Let_def peerAt_Close net_Close net_connected_def
                 sessionOf_def max_def word_gt_0
           split: option.splits)

lemma tryMarkConnected_gotVersion [simp]:
  "gotVersion (peerAt (tryMarkConnected h w) h') = gotVersion (peerAt w h')"
  by (auto simp: tryMarkConnected_def Let_def peerAt_Close net_connected_def split: option.splits)

text \<open>
  C4. When \<open>tryMarkConnected\<close> finds the peer not connected, with the version and the
  peer list received and not closed, it marks it connected, sets \<open>nextSessionID\<close> for
  the peer's id to the larger of its previous value and \<open>incomingSessionID\<close>, plus one
  (in \<open>uint32\<close>), stores the peer in \<open>peers\<close> under its id after closing the peer that
  was registered there, and calls the Network's \<open>connected\<close> hook last.
\<close>

theorem tryMarkConnected_connects:
  assumes "\<not> connected (peerAt w h)" and "gotVersion (peerAt w h)"
    and "gotPeerList (peerAt w h)" and "\<not> closed (peerAt w h)"
  shows "connected (peerAt (tryMarkConnected h w) h) \<and>
         nextSessionID (net (tryMarkConnected h w)) (peer_id (peerAt w h)) =
           Some (max (sessionOf (net w) (peer_id (peerAt w h))) (incomingSessionID (peerAt w h)) + 1) \<and>
         peers (net (tryMarkConnected h w)) (peer_id (peerAt w h)) = Some h \<and>
         (\<forall>old. peers (net w) (peer_id (peerAt w h)) = Some old \<longrightarrow>
            closed (peerAt (tryMarkConnected h w) old)) \<and>
         hooks (net (tryMarkConnected h w)) =
           hooks (net w) @
           (case peers (net w) (peer_id (peerAt w h)) of
              Some old \<Rightarrow> if closed (peerAt w old) then [] else [HookDisconnected old]
            | None \<Rightarrow> []) @
           [HookConnected h]"
  using tryMarkConnected_effect [OF assms] by blast

theorem tryMarkConnected_connects_witness:
  "\<not> connected (peerAt exWorld7 1) \<and> gotVersion (peerAt exWorld7 1) \<and>
   gotPeerList (peerAt exWorld7 1) \<and> \<not> closed (peerAt exWorld7 1) \<and>
   connected (peerAt (tryMarkConnected 1 exWorld7) 1) \<and>
   nextSessionID (net (tryMarkConnected 1 exWorld7)) [1] = Some 8 \<and>
   peers (net (tryMarkConnected 1 exWorld7)) [1] = Some 1 \<and>
   closed (peerAt (tryMarkConnected 1 exWorld7) 0) \<and>
   hooks (net (tryMarkConnected 1 exWorld7)) = [HookDisconnected 0, HookConnected 1]"
proof -
  have h: "\<not> connected (peerAt exWorld7 1)" "gotVersion (peerAt exWorld7 1)"
    "gotPeerList (peerAt exWorld7 1)" "\<not> closed (peerAt exWorld7 1)"
    by (simp_all add: exWorld7_def ex_defs)
  have v: "peer_id (peerAt exWorld7 1) = [1]" "sessionOf (net exWorld7) [1] = 5"
    "incomingSessionID (peerAt exWorld7 1) = 7" "peers (net exWorld7) [1] = Some 0"
    "\<not> closed (peerAt exWorld7 0)" "hooks (net exWorld7) = []"
    by (simp_all add: exWorld7_def ex_defs sessionOf_def)
  show ?thesis
    using h tryMarkConnected_connects [OF h] by (simp add: v del: One_nat_def)
qed

text \<open>
  C5. On a peer that is closed or already connected \<open>tryMarkConnected\<close> changes
  nothing: the whole state, with the flags, \<open>peers\<close>, \<open>nextSessionID\<close> and the record of
  hook calls, is as before.
\<close>

theorem tryMarkConnected_noop:
  "closed (peerAt w h) \<or> connected (peerAt w h) \<Longrightarrow> tryMarkConnected h w = w"
  by (auto simp: tryMarkConnected_def)

theorem tryMarkConnected_noop_witness:
  "connected (peerAt exWorld 0) \<and> tryMarkConnected 0 exWorld = exWorld"
proof -
  have h: "closed (peerAt exWorld 0) \<or> connected (peerAt exWorld 0)"
    by (simp add: ex_defs)
  show ?thesis
    using tryMarkConnected_noop [OF h] by (simp add: ex_defs)
qed

lemma version_accept_unlocked:
  assumes "\<not> gotVersion (peerAt w h)"
    and "m_NetworkID msg = networkID (net w)"
    and "m_NodeID msg \<noteq> nodeID (net w)"
    and "\<not> clockOutOfSync (net w) msg"
    and "parseVersion ext (m_VersionStr msg) = Some v"
    and "Compatible ext v \<or> peer_id (peerAt w h) \<in> beacons (net w)"
    and "peers (net w) (peer_id (peerAt w h)) = Some old"
    and "m_SessionID msg = 0 \<or> sessionOf (net w) (peer_id (peerAt w h)) \<le> m_SessionID msg"
    and "gotPeerList (peerAt w h)" and "\<not> connected (peerAt w h)" and "\<not> closed (peerAt w h)"
  shows "version ext h msg w = Inl UnlockOfUnlockedMutex"
proof -
  define w1 where "w1 =
    (if IsZero ext (ip (peerAt w h))
     then (case remoteAddr (peerAt w h) of
             Some localPeerIP \<Rightarrow>
               if ipEqual ext (IP (m_IP msg)) (IP localPeerIP) then setIP h (m_IP msg) w else w
           | None \<Rightarrow> w)
     else w)"
  define w3 where "w3 = updPeer h (\<lambda>p. p\<lparr>versionStruct := Some v,
                                            versionStr := Some (versionString ext v),
                                            gotVersion := True,
                                            incomingSessionID := m_SessionID msg\<rparr>)
                          (SendPeerList ext h w1)"
  have run: "version ext h msg w = tryMarkConnected_unlocked h w3"
    using assms(1-8) by (auto simp: version_def Let_def w1_def w3_def)
  have w1: "peers (net w1) = peers (net w)" "peer_id (peerAt w1 h) = peer_id (peerAt w h)"
    "gotPeerList (peerAt w1 h) = gotPeerList (peerAt w h)"
    "connected (peerAt w1 h) = connected (peerAt w h)"
    "closed (peerAt w1 h) = closed (peerAt w h)"
    by (auto simp: w1_def setIP_def split: option.splits)
  have "reachesUnlock h w3"
    using assms(7,9-11) by (simp add: reachesUnlock_def w3_def w1)
  then show ?thesis
    by (simp add: run tryMarkConnected_unlocked_def)
qed

text \<open>
  C3 (the code at a failing input). The peer with id \<open>[1]\<close> is registered, with
  \<open>nextSessionID\<close> at 5, and a new connection of that peer has received the peer list.
  A \<open>Version\<close> with the stale session id 3 is discarded through \<open>discardIP\<close> and
  \<open>peers\<close> stays as it was. A \<open>Version\<close> with session id 7, or with session id 0,
  passes the arbitration, but the new connection does not replace the registered one:
  the handler has released \<open>stateLock\<close> before it calls \<open>tryMarkConnected\<close>, and the
  \<open>Unlock\<close> there is a fatal error.
\<close>

theorem version_supplant_fatal:
  "peers (net exWorld) (peer_id (peerAt exWorld 1)) = Some 0 \<and>
   sessionOf (net exWorld) (peer_id (peerAt exWorld 1)) = 5 \<and>
   version exExt 1 (exVersion 3) exWorld = Inr (discardIP exExt 1 exWorld) \<and>
   peers (net (discardIP exExt 1 exWorld)) = peers (net exWorld) \<and>
   version exExt 1 (exVersion 7) exWorld = Inl UnlockOfUnlockedMutex \<and>
   version exExt 1 (exVersion 0) exWorld = Inl UnlockOfUnlockedMutex"
proof -
  have h: "\<not> gotVersion (peerAt exWorld 1)"
    "m_NetworkID (exVersion s) = networkID (net exWorld)"
    "m_NodeID (exVersion s) \<noteq> nodeID (net exWorld)"
    "\<not> clockOutOfSync (net exWorld) (exVersion s)"
    "parseVersion exExt (m_VersionStr (exVersion s)) = Some (DefaultVersion ''avalanche'' 1 0 4)"
    "Compatible exExt (DefaultVersion ''avalanche'' 1 0 4) \<or>
       peer_id (peerAt exWorld 1) \<in> beacons (net exWorld)"
    "peers (net exWorld) (peer_id (peerAt exWorld 1)) = Some 0" for s
    by (simp_all add: ex_clock) (simp_all add: ex_defs)
  have v: "sessionOf (net exWorld) (peer_id (peerAt exWorld 1)) = 5"
    "gotPeerList (peerAt exWorld 1)" "\<not> connected (peerAt exWorld 1)"
    "\<not> closed (peerAt exWorld 1)" "m_SessionID (exVersion s) = s" for s
    by (simp_all add: ex_defs sessionOf_def)
  have stale: "version exExt 1 (exVersion 3) exWorld = Inr (discardIP exExt 1 exWorld)"
    using h(1) h(2-5) [of 3] h(6,7)
    by (simp add: version_def Let_def v del: One_nat_def)
  have seven: "version exExt 1 (exVersion 7) exWorld = Inl UnlockOfUnlockedMutex"
    by (rule version_accept_unlocked [OF h]) (simp_all add: v del: One_nat_def)
  have zero: "version exExt 1 (exVersion 0) exWorld = Inl UnlockOfUnlockedMutex"
    by (rule version_accept_unlocked [OF h]) (simp_all add: v del: One_nat_def)
  from h(7) v(1) stale seven zero show ?thesis
    by (simp add: discardIP_facts del: One_nat_def)
qed




text \<open>
  C10. On a peer whose \<open>gotVersion\<close> is set, the handler of a further \<open>Version\<close>
  returns at once: the whole state is as before, so nothing is updated and the
  connection is not closed.
\<close>

theorem version_duplicate_ignored:
  "gotVersion (peerAt w h) \<Longrightarrow> version ext h msg w = Inr w"
  by (simp add: version_def)

theorem version_duplicate_ignored_witness:
  "gotVersion (peerAt exWorld 0) \<and> version exExt 0 (exVersion 9) exWorld = Inr exWorld"
proof -
  have h: "gotVersion (peerAt exWorld 0)"
    by (simp add: ex_defs)
  show ?thesis
    using h version_duplicate_ignored [OF h] by simp
qed


lemma readLoop_parsed_within_limit:
  "f \<in> set (parsed (readLoop maxSize parse pending chunks)) \<Longrightarrow> \<not> maxSize <s len64 f"
proof (induction chunks arbitrary: pending)
  case Nil
  then show ?case by simp
next
  case (Cons chunk rest)
  show ?case
  proof (cases "UnpackBytes (pending @ chunk)")
    case None
    with Cons show ?thesis
      by (auto simp: Let_def split: if_splits)
  next
    case (Some a)
    obtain m r where "a = (m, r)" by (cases a)
    with Some Cons show ?thesis
      by (auto simp: Let_def split: if_splits option.splits)
  qed
qed




lemma Close_counters:
  "net_pendingBytes (net (Close h w)) = net_pendingBytes (net w)"
  "pendingBytes (peerAt (Close h w) h') = pendingBytes (peerAt w h')"
  "sender (peerAt (Close h w) h') = sender (peerAt w h')"
  by (simp_all add: net_Close peerAt_Close)

lemma Send_true_counters:
  assumes "fst (Send h msgBytes w)"
  shows "pendingBytes (peerAt (snd (Send h msgBytes w)) h) = pendingBytes (peerAt w h) + len64 msgBytes"
    and "net_pendingBytes (net (snd (Send h msgBytes w))) = net_pendingBytes (net w) + len64 msgBytes"
    and "writer (peerAt w h) \<noteq> Parked \<Longrightarrow>
           sender (peerAt (snd (Send h msgBytes w)) h) = sender (peerAt w h) @ [msgBytes]"
  using assms by (auto simp: Send_def Let_def split: if_splits)

lemma Send_false_counters:
  assumes "\<not> fst (Send h msgBytes w)"
  shows "pendingBytes (peerAt (snd (Send h msgBytes w)) h') = pendingBytes (peerAt w h')"
    and "net_pendingBytes (net (snd (Send h msgBytes w))) = net_pendingBytes (net w)"
    and "sender (peerAt (snd (Send h msgBytes w)) h') = sender (peerAt w h')"
  using assms by (auto simp: Send_def Let_def split: if_splits)

lemma Send_config [simp]:
  "senderCap (peerAt (snd (Send h m w)) h') = senderCap (peerAt w h')"
  "maxMessageSize (net (snd (Send h m w))) = maxMessageSize (net w)"
  by (simp_all add: Send_def Let_def)

lemma Send_writer:
  "writer (peerAt w h) \<noteq> Parked \<Longrightarrow>
     writer (peerAt (snd (Send h m w)) h) = writer (peerAt w h)"
  by (simp add: Send_def Let_def)

lemma exWorld_new:
  "\<not> closed (peerAt exWorld 1)" "pendingBytes (peerAt exWorld 1) = 0"
  "sender (peerAt exWorld 1) = []" "senderCap (peerAt exWorld 1) = 1024"
  "net_pendingBytes (net exWorld) = 0" "maxMessageSize (net exWorld) = 2097152"
  "writer (peerAt exWorld 1) = Busy"
  by (simp_all add: ex_defs)

lemma exSend1: "fst (Send 1 [1, 1, 1] exWorld)"
  by (simp add: Send_fst dropMessagePeer_def exWorld_new word_sless_alt del: One_nat_def)

lemma exSend1_state:
  "pendingBytes (peerAt (snd (Send 1 [1, 1, 1] exWorld)) 1) = 3"
  "net_pendingBytes (net (snd (Send 1 [1, 1, 1] exWorld))) = 3"
  "sender (peerAt (snd (Send 1 [1, 1, 1] exWorld)) 1) = [[1, 1, 1]]"
  "writer (peerAt (snd (Send 1 [1, 1, 1] exWorld)) 1) = Busy"
  by (simp_all add: Send_true_counters [OF exSend1] Send_writer exWorld_new len64_def
               del: One_nat_def)

lemma exSend2: "fst (Send 1 [2, 2] (snd (Send 1 [1, 1, 1] exWorld)))"
  by (simp add: Send_fst dropMessagePeer_def exSend1_state exWorld_new word_sless_alt
           del: One_nat_def)

lemma exQueued_state:
  "\<not> closed (peerAt exQueued 1)"
  "sender (peerAt exQueued 1) = [[1, 1, 1], [2, 2]]"
  "pendingBytes (peerAt exQueued 1) = 5"
  "net_pendingBytes (net exQueued) = 5"
  "writer (peerAt exQueued 1) = Busy"
  by (simp_all add: exQueued_def Send_true_counters [OF exSend2] Send_writer exSend1_state
                    exWorld_new len64_def del: One_nat_def)

lemma WriteMessages_write_fails:
  assumes "receive (peerAt w h) = Some (msg, p')" and "\<not> writeOK k"
  shows "WriteMessages h writeOK k w =
           (Returned,
            Close h
              (updNet (\<lambda>n. n\<lparr>net_pendingBytes := net_pendingBytes n - len64 msg\<rparr>)
                 (updPeer h (\<lambda>p. p'\<lparr>pendingBytes := pendingBytes p' - len64 msg\<rparr>) w)))"
  by (subst WriteMessages.simps) (simp add: assms Let_def)

text \<open>
  C2 (the code at a failing input). \<open>Send\<close> accepts a frame of 3 bytes and a frame of
  2 bytes on the new connection, so both counters stand at 5. The writer takes the first
  frame, its write fails, and it returns and closes the peer. The 2 bytes of the frame
  left in the queue stay in both counters: nothing takes the frame out any more, and
  \<open>Send\<close> refuses every further message.
\<close>

theorem WriteMessages_leaves_bytes_counted:
  "fst (Send 1 [1, 1, 1] exWorld) \<and>
   fst (Send 1 [2, 2] (snd (Send 1 [1, 1, 1] exWorld))) \<and>
   net_pendingBytes (net exQueued) = 5 \<and>
   fst (WriteMessages 1 (\<lambda>k. False) 0 exQueued) = Returned \<and>
   closed (peerAt (snd (WriteMessages 1 (\<lambda>k. False) 0 exQueued)) 1) \<and>
   sender (peerAt (snd (WriteMessages 1 (\<lambda>k. False) 0 exQueued)) 1) = [[2, 2]] \<and>
   pendingBytes (peerAt (snd (WriteMessages 1 (\<lambda>k. False) 0 exQueued)) 1) = 2 \<and>
   net_pendingBytes (net (snd (WriteMessages 1 (\<lambda>k. False) 0 exQueued))) = 2 \<and>
   \<not> fst (Send 1 msgBytes (snd (WriteMessages 1 (\<lambda>k. False) 0 exQueued)))"
proof -
  have r: "receive (peerAt exQueued 1) =
             Some ([1, 1, 1], (peerAt exQueued 1)\<lparr>sender := [[2, 2]], writer := Busy\<rparr>)"
    by (simp add: receive_def exQueued_state del: One_nat_def)
  have w: "WriteMessages 1 (\<lambda>k. False) 0 exQueued =
             (Returned,
              Close 1
                (updNet (\<lambda>n. n\<lparr>net_pendingBytes := net_pendingBytes n - len64 [1, 1, 1 :: byte]\<rparr>)
                   (updPeer 1 (\<lambda>p. (peerAt exQueued 1)
                                      \<lparr>sender := [[2, 2]], writer := Busy,
                                       pendingBytes := pendingBytes (peerAt exQueued 1) -
                                                         len64 [1, 1, 1 :: byte]\<rparr>)
                      exQueued)))"
    using WriteMessages_write_fails [OF r, of "\<lambda>k. False" 0] by simp
  have refused: "\<not> fst (Send 1 msgBytes (snd (WriteMessages 1 (\<lambda>k. False) 0 exQueued)))"
    by (simp add: Send_fst w peerAt_Close exQueued_state del: One_nat_def)
  have left:
    "fst (WriteMessages 1 (\<lambda>k. False) 0 exQueued) = Returned"
    "closed (peerAt (snd (WriteMessages 1 (\<lambda>k. False) 0 exQueued)) 1)"
    "sender (peerAt (snd (WriteMessages 1 (\<lambda>k. False) 0 exQueued)) 1) = [[2, 2]]"
    "pendingBytes (peerAt (snd (WriteMessages 1 (\<lambda>k. False) 0 exQueued)) 1) = 2"
    "net_pendingBytes (net (snd (WriteMessages 1 (\<lambda>k. False) 0 exQueued))) = 2"
    by (simp_all add: w peerAt_Close net_Close exQueued_state len64_def del: One_nat_def)
  from exSend1 exSend2 exQueued_state(4) left refused show ?thesis
    by (intro conjI)
qed

text \<open>
  C6 (the code as it is). \<open>peer.Version\<close> passes \<open>nextSessionID\<close> for the peer as the
  session id of the message it builds. \<open>verionAck\<close> passes five arguments, with no
  session id among them, which is not a call of \<open>Builder.Version\<close>.
\<close>

theorem Version_args_session_id:
  "map_option m_SessionID (b_Version (Version_args n p)) = Some (sessionOf n (peer_id p)) \<and>
   U32 (sessionOf n (peer_id p)) \<in> set (Version_args n p) \<and>
   length (verionAck_args n) = 5 \<and>
   b_Version (verionAck_args n) = None"
  by (simp add: Version_args_def verionAck_args_def)

text \<open>
  C9. On a transaction whose embedded \<open>UnsignedTx.SyntacticVerify\<close> returns an error,
  whatever it is, \<open>Tx.SyntacticVerify\<close> returns \<open>errInitialStatesNotSortedUnique\<close> and
  leaves it stored in \<open>validity\<close>: on the first call, which runs the embedded
  verification, and on every later call, which returns what the first one stored.
\<close>

theorem SyntacticVerify_masks_error:
  assumes "UnsignedTx t = Some u" and "unsignedVerify u = Some err"
    and "verifiedTx t \<longrightarrow> validity t = Some errInitialStatesNotSortedUnique"
  shows "SyntacticVerify unsignedVerify credVerify numCredentials (Some t) =
           (Some errInitialStatesNotSortedUnique,
            Some (t\<lparr>verifiedTx := True, validity := Some errInitialStatesNotSortedUnique\<rparr>))"
proof (cases "verifiedTx t")
  case True
  with assms(3) have "t\<lparr>verifiedTx := True, validity := Some errInitialStatesNotSortedUnique\<rparr> = t"
    by (cases t) simp
  with True assms show ?thesis
    by (simp add: SyntacticVerify_def)
next
  case False
  with assms show ?thesis
    by (simp add: SyntacticVerify_def)
qed

theorem SyntacticVerify_masks_error_witness:
  "UnsignedTx exTx = Some () \<and> \<not> verifiedTx exTx \<and>
   fst (SyntacticVerify (\<lambda>u. Some (OtherError ''insufficient fee'')) (\<lambda>c. None) (\<lambda>u. 0) (Some exTx))
     = Some errInitialStatesNotSortedUnique"
proof -
  have h: "UnsignedTx exTx = Some ()" "\<not> verifiedTx exTx"
    by (simp_all add: exTx_def)
  have r: "SyntacticVerify (\<lambda>u. Some (OtherError ''insufficient fee'')) (\<lambda>c. None) (\<lambda>u. 0) (Some exTx) =
             (Some errInitialStatesNotSortedUnique,
              Some (exTx\<lparr>verifiedTx := True, validity := Some errInitialStatesNotSortedUnique\<rparr>))"
    by (rule SyntacticVerify_masks_error [OF h(1)]) (simp_all add: h(2))
  show ?thesis
    by (simp only: h r fst_conv simp_thms)
qed

end
